theory Spec2Isabelle
  imports Complex_Main "HOL-Library.Sublist"
begin

section \<open>JavaScript values the adapters handle\<close>

text \<open>
  A thrown JavaScript error is a value: \<open>Error msg\<close> for \<^verbatim>\<open>new Error(msg)\<close> and
  \<open>TypeError msg\<close> for the runtime's own type errors (calling \<^verbatim>\<open>.map\<close> on a value that
  has none). A rejected promise is the \<open>Inl\<close> branch of a sum.
\<close>

datatype error = Error string | TypeError string

fun message :: "error \<Rightarrow> string" where
  "message (Error m) = m"
| "message (TypeError m) = m"

text \<open>
  An optional string is \<open>None\<close> for \<^verbatim>\<open>undefined\<close>. JavaScript's \<^verbatim>\<open>||\<close> and \<^verbatim>\<open>!\<close> treat both
  \<^verbatim>\<open>undefined\<close> and the empty string as false: \<open>nonEmpty\<close> is \<^verbatim>\<open>v || undefined\<close>.
\<close>

definition nonEmpty :: "string option \<Rightarrow> string option" where
  "nonEmpty v = (case v of None \<Rightarrow> None | Some s \<Rightarrow> if s = [] then None else Some s)"

definition truthy :: "string option \<Rightarrow> bool" where
  "truthy v = (nonEmpty v \<noteq> None)"

definition orEmpty :: "string option \<Rightarrow> string" where
  \<comment> \<open>\<^verbatim>\<open>v || ''\<close>\<close>
  "orEmpty v = (case v of None \<Rightarrow> [] | Some s \<Rightarrow> s)"

section \<open>Canonical request and response shapes\<close>

text \<open>
  The shapes of \<^verbatim>\<open>@google/genai\<close> as far as the adapters read them. A part object
  carries an optional \<^verbatim>\<open>text\<close>; \<open>part_inlineData\<close> stands for its non-text payload.
  A content object carries an optional \<^verbatim>\<open>role\<close> (\<open>None\<close>: the key is absent) and
  optional \<^verbatim>\<open>parts\<close>. \<^verbatim>\<open>ContentListUnion\<close> is a string, one object, or an array whose
  items are strings or objects.
\<close>

record Part =
  part_text :: "string option"
  part_inlineData :: "string option"

datatype PartUnion = PartString string | PartObject Part

record Content =
  content_role :: "string option"
  content_parts :: "PartUnion list option"

datatype ContentUnion = ItemString string | ItemObject Content

datatype ContentListUnion =
  ListString string | ListObject Content | ListArray "ContentUnion list"

record GenerateContentConfig =
  cfg_temperature :: "real option"
  cfg_topP :: "real option"
  cfg_maxOutputTokens :: "int option"

record GenerateContentParameters =
  req_model :: string
  req_contents :: "ContentListUnion option"
  req_config :: "GenerateContentConfig option"

record Candidate =
  cand_content :: Content

record UsageMetadata =
  totalTokens :: "int option"

record GenerateContentResponse =
  candidates :: "Candidate list"
  usageMetadata :: "UsageMetadata option"

record CountTokensParameters =
  ct_model :: string
  ct_contents :: "ContentListUnion option"

record CountTokensResponse =
  ct_totalTokens :: int

record EmbedContentParameters =
  emb_model :: string
  emb_contents :: "ContentListUnion option"

record ContentEmbedding =
  ce_values :: "real list"

record EmbedContentResponse =
  embeddings :: "ContentEmbedding list"

text \<open>
  A stream the consumer pulls to its end is the list of the elements it produced,
  with the error that ended it, if one did.
\<close>

type_synonym 'a produced = "'a list \<times> error option"

text \<open>The interface \<^verbatim>\<open>ContentGenerator\<close> of contentGenerator.ts: an object of four closures.\<close>

record ContentGenerator =
  generateContent :: "GenerateContentParameters \<Rightarrow> error + GenerateContentResponse"
  generateContentStream ::
    "GenerateContentParameters \<Rightarrow> error + GenerateContentResponse produced"
  countTokens :: "CountTokensParameters \<Rightarrow> error + CountTokensResponse"
  embedContent :: "EmbedContentParameters \<Rightarrow> error + EmbedContentResponse"
  userTier :: "string option"

section \<open>Wire shapes of the backend client libraries\<close>

text \<open>
  The client libraries (\<^verbatim>\<open>openai\<close>, \<^verbatim>\<open>@anthropic-ai/sdk\<close>) are outside the repository.
  Their requests and replies are the objects the adapters build and read. A chat
  completion may carry a \<^verbatim>\<open>usage\<close> block with a total-token count, which the OpenAI
  adapters read. The usage block of an Anthropic reply reports input and output token
  counts and no total; the Claude adapter reads none of it. What a backend answers is a
  parameter of the model (\<open>SDK\<close>): a call returns a reply or throws.
\<close>

record ChatMessage =
  msg_role :: "string option"
  msg_content :: string

record ChatCompletionCreateParams =
  p_model :: string
  p_messages :: "ChatMessage list"
  p_temperature :: "real option"
  p_top_p :: "real option"
  p_stream :: bool

record ChatCompletionMessage =
  cm_content :: "string option"

record Choice =
  choice_message :: "ChatCompletionMessage option"

record CompletionUsage =
  total_tokens :: int

record ChatCompletion =
  choices :: "Choice list"
  usage :: "CompletionUsage option"

record ChoiceDelta =
  delta_content :: "string option"

record ChunkChoice =
  chunk_delta :: "ChoiceDelta option"

record ChatCompletionChunk =
  chunk_choices :: "ChunkChoice list"

record EmbeddingCreateParams =
  ep_model :: string
  ep_input :: "ContentListUnion option"

record Embedding =
  embedding :: "real list"

record CreateEmbeddingResponse =
  emb_data :: "Embedding list"

record MessageCreateParams =
  mp_model :: string
  mp_messages :: "ChatMessage list"
  mp_max_tokens :: int
  mp_temperature :: "real option"

record ContentBlock =
  block_text :: "string option"

record AnthropicUsage =
  input_tokens :: int
  output_tokens :: int

record AnthropicMessage =
  am_content :: "ContentBlock list option"
  am_usage :: "AnthropicUsage option"

record OpenAIClient =
  openai_apiKey :: string

record AnthropicClient =
  anthropic_apiKey :: string

record SDK =
  chat_completions_create ::
    "OpenAIClient \<Rightarrow> ChatCompletionCreateParams \<Rightarrow> error + ChatCompletion"
  chat_completions_create_stream ::
    "OpenAIClient \<Rightarrow> ChatCompletionCreateParams \<Rightarrow> error + ChatCompletionChunk produced"
  embeddings_create ::
    "OpenAIClient \<Rightarrow> EmbeddingCreateParams \<Rightarrow> error + CreateEmbeddingResponse"
  messages_create ::
    "AnthropicClient \<Rightarrow> MessageCreateParams \<Rightarrow> error + AnthropicMessage"

section \<open>Configuration, process and effects\<close>

datatype AuthType =
  LOGIN_WITH_GOOGLE | USE_GEMINI | USE_VERTEX_AI | USE_OPENAI | USE_CLAUDE | USE_GROK
  | USE_DOUBAO | USE_QWEN | USE_KIMI | USE_DEEPSEEK | CLOUD_SHELL

text \<open>
  \<^verbatim>\<open>Provider\<close> is a string enum: at run time a provider tag is a string, and the
  factory's \<^verbatim>\<open>switch\<close> has a \<^verbatim>\<open>default\<close> branch for tags outside the enum.
\<close>

definition GEMINI :: string where "GEMINI = ''gemini''"
definition OPENAI :: string where "OPENAI = ''openai''"
definition CLAUDE :: string where "CLAUDE = ''claude''"
definition GROK :: string where "GROK = ''grok''"
definition DOUBAO :: string where "DOUBAO = ''doubao''"
definition QWEN :: string where "QWEN = ''qwen''"
definition KIMI :: string where "KIMI = ''kimi''"
definition DEEPSEEK :: string where "DEEPSEEK = ''deepseek''"

definition Provider :: "string list" where
  "Provider = [GEMINI, OPENAI, CLAUDE, GROK, DOUBAO, QWEN, KIMI, DEEPSEEK]"

record ContentGeneratorConfig =
  cgc_model :: string
  cgc_provider :: "string option"
  cgc_apiKey :: "string option"
  cgc_vertexai :: "bool option"
  cgc_authType :: "AuthType option"
  cgc_proxy :: "string option"

text \<open>The session configuration (\<^verbatim>\<open>Config\<close> of config.ts, outside the repository's files).\<close>

record Config =
  getModel :: string
  getProxy :: "string option"

record Process =
  proc_env :: "string \<rightharpoonup> string"
  proc_version :: string
  proc_platform :: string
  proc_arch :: string

record HttpOptions =
  http_headers :: "(string \<times> string) list"

record GoogleGenAIOptions =
  gopt_apiKey :: "string option"
  gopt_vertexai :: "bool option"
  gopt_httpOptions :: HttpOptions

text \<open>
  What a call does besides returning: the environment variables it reads, the backend
  clients it constructs, and the model check it starts. A function with effects returns
  its result with the list of its effects, in order.
\<close>

datatype Event =
  EnvRead string
  | NewOpenAI string
  | NewAnthropic string
  | NewGoogleGenAI GoogleGenAIOptions
  | GetEffectiveModel string string "string option"
  | Foreign string

fun constructsClient :: "Event \<Rightarrow> bool" where
  "constructsClient (NewOpenAI k) = True"
| "constructsClient (NewAnthropic k) = True"
| "constructsClient (NewGoogleGenAI opts) = True"
| "constructsClient e = False"

type_synonym 'a traced = "'a \<times> Event list"

type_synonym createProvider_t =
  "Process \<Rightarrow> ContentGeneratorConfig \<Rightarrow> Config \<Rightarrow> string option
    \<Rightarrow> (error + ContentGenerator) traced"

text \<open>
  The modules contentGenerator.ts imports that are not among the repository's files,
  and the surface of the Google client library, are parameters.
\<close>

record Imports =
  DEFAULT_GEMINI_MODEL :: string
  createCodeAssistContentGenerator ::
    "Process \<Rightarrow> HttpOptions \<Rightarrow> AuthType option \<Rightarrow> Config \<Rightarrow> string option
      \<Rightarrow> (error + ContentGenerator) traced"
  createDoubaoProvider :: createProvider_t
  createQwenProvider :: createProvider_t
  createKimiProvider :: createProvider_t
  createDeepseekProvider :: createProvider_t
  GoogleGenAI_models :: "GoogleGenAIOptions \<Rightarrow> ContentGenerator"

definition prepend :: "Event list \<Rightarrow> 'a traced \<Rightarrow> 'a traced" where
  "prepend pre r = (fst r, pre @ snd r)"

section \<open>Message translation\<close>

definition partText :: "PartUnion \<Rightarrow> string" where
  \<comment> \<open>\<^verbatim>\<open>typeof p === 'string' ? p : p.text || ''\<close>\<close>
  "partText p = (case p of PartString s \<Rightarrow> s | PartObject q \<Rightarrow> orEmpty (part_text q))"

definition partsOrEmpty :: "Content \<Rightarrow> PartUnion list" where
  \<comment> \<open>\<^verbatim>\<open>item.parts ?? []\<close>\<close>
  "partsOrEmpty c = (case content_parts c of None \<Rightarrow> [] | Some ps \<Rightarrow> ps)"

definition orEmptyArray :: "ContentListUnion option \<Rightarrow> ContentListUnion" where
  \<comment> \<open>\<^verbatim>\<open>request.contents || []\<close>: \<^verbatim>\<open>undefined\<close> and the empty string are false\<close>
  "orEmptyArray contents =
     (case contents of
        None \<Rightarrow> ListArray []
      | Some (ListString s) \<Rightarrow> if s = [] then ListArray [] else ListString s
      | Some c \<Rightarrow> c)"

subsection \<open>The OpenAI adapter (part 001)\<close>

definition objectToString :: string where
  \<comment> \<open>\<^verbatim>\<open>String(item)\<close> of a plain object\<close>
  "objectToString = ''[object Object]''"

fun openai_item :: "ContentUnion \<Rightarrow> ChatMessage" where
  "openai_item (ItemString s) = \<lparr>msg_role = Some ''user'', msg_content = s\<rparr>"
| "openai_item (ItemObject c) =
     (case content_role c of
        None \<Rightarrow> \<lparr>msg_role = Some ''user'', msg_content = objectToString\<rparr>
      | Some r \<Rightarrow> \<lparr>msg_role = Some r, msg_content = concat (map partText (partsOrEmpty c))\<rparr>)"

definition openai_toOpenAIMessages :: "ContentListUnion option \<Rightarrow> ChatMessage list" where
  "openai_toOpenAIMessages contents =
     (case contents of
        None \<Rightarrow> []
      | Some (ListString s) \<Rightarrow>
          if s = [] then [] else [\<lparr>msg_role = Some ''user'', msg_content = s\<rparr>]
      | Some (ListObject c) \<Rightarrow> map openai_item [ItemObject c]
      | Some (ListArray xs) \<Rightarrow> map openai_item xs)"

subsection \<open>The Claude adapter (claudeProvider.ts)\<close>

fun claude_item :: "ContentUnion \<Rightarrow> ChatMessage" where
  "claude_item (ItemString s) = \<lparr>msg_role = Some ''user'', msg_content = s\<rparr>"
| "claude_item (ItemObject c) =
     \<lparr>msg_role = content_role c, msg_content = concat (map partText (partsOrEmpty c))\<rparr>"

definition toAnthropicMessages :: "ContentListUnion option \<Rightarrow> ChatMessage list" where
  "toAnthropicMessages contents =
     map claude_item
       (case contents of
          None \<Rightarrow> []
        | Some (ListArray xs) \<Rightarrow> xs
        | Some (ListString s) \<Rightarrow> if s = [] then [] else [ItemString s]
        | Some (ListObject c) \<Rightarrow> [ItemObject c])"

subsection \<open>The second OpenAI-client adapter (part 002)\<close>

text \<open>
  Its translation is typed for an array of content objects and calls \<^verbatim>\<open>contents.map\<close>
  on what it is given: a string or a single object has no \<^verbatim>\<open>map\<close>, and the call throws.
  On a string item, \<^verbatim>\<open>c.role\<close> and \<^verbatim>\<open>c.parts\<close> are \<^verbatim>\<open>undefined\<close>; on a string part,
  \<^verbatim>\<open>p.text\<close> is.
\<close>

definition part002_partText :: "PartUnion \<Rightarrow> string" where
  \<comment> \<open>\<^verbatim>\<open>p.text || ''\<close>\<close>
  "part002_partText p = (case p of PartString s \<Rightarrow> [] | PartObject q \<Rightarrow> orEmpty (part_text q))"

fun part002_item :: "ContentUnion \<Rightarrow> ChatMessage" where
  "part002_item (ItemString s) = \<lparr>msg_role = None, msg_content = []\<rparr>"
| "part002_item (ItemObject c) =
     \<lparr>msg_role = content_role c,
      msg_content = (case content_parts c of
                       None \<Rightarrow> []
                     | Some ps \<Rightarrow> concat (map part002_partText ps))\<rparr>"

definition part002_toOpenAIMessages :: "ContentListUnion \<Rightarrow> error + ChatMessage list" where
  "part002_toOpenAIMessages contents =
     (case contents of
        ListArray xs \<Rightarrow> Inr (map part002_item xs)
      | _ \<Rightarrow> Inl (TypeError ''contents.map is not a function''))"

section \<open>The adapters' operations\<close>

definition candidateOf :: "string \<Rightarrow> Candidate" where
  \<comment> \<open>\<^verbatim>\<open>{ content: { role: 'model', parts: [{ text }] } }\<close>\<close>
  "candidateOf t =
     \<lparr>cand_content =
        \<lparr>content_role = Some ''model'',
         content_parts = Some [PartObject \<lparr>part_text = Some t, part_inlineData = None\<rparr>]\<rparr>\<rparr>"

definition completionText :: "ChatCompletion \<Rightarrow> string" where
  \<comment> \<open>\<^verbatim>\<open>completion.choices[0]?.message?.content || ''\<close>\<close>
  "completionText completion =
     (case choices completion of
        [] \<Rightarrow> []
      | c # _ \<Rightarrow> (case choice_message c of None \<Rightarrow> [] | Some m \<Rightarrow> orEmpty (cm_content m)))"

definition chunkText :: "ChatCompletionChunk \<Rightarrow> string" where
  \<comment> \<open>\<^verbatim>\<open>chunk.choices[0]?.delta?.content || ''\<close>\<close>
  "chunkText chunk =
     (case chunk_choices chunk of
        [] \<Rightarrow> []
      | c # _ \<Rightarrow> (case chunk_delta c of None \<Rightarrow> [] | Some d \<Rightarrow> orEmpty (delta_content d)))"

definition chatParams ::
  "GenerateContentParameters \<Rightarrow> ChatMessage list \<Rightarrow> bool \<Rightarrow> ChatCompletionCreateParams" where
  "chatParams request messages streaming =
     \<lparr>p_model = req_model request,
      p_messages = messages,
      p_temperature = Option.bind (req_config request) cfg_temperature,
      p_top_p = Option.bind (req_config request) cfg_topP,
      p_stream = streaming\<rparr>"

definition completionResponse :: "ChatCompletion \<Rightarrow> GenerateContentResponse" where
  "completionResponse completion =
     \<lparr>candidates = [candidateOf (completionText completion)],
      usageMetadata = Some \<lparr>totalTokens = map_option total_tokens (usage completion)\<rparr>\<rparr>"

definition chunkResponse :: "ChatCompletionChunk \<Rightarrow> GenerateContentResponse" where
  "chunkResponse chunk =
     \<lparr>candidates = [candidateOf (chunkText chunk)], usageMetadata = None\<rparr>"

definition iterator :: "ChatCompletionChunk produced \<Rightarrow> GenerateContentResponse produced" where
  \<comment> \<open>\<^verbatim>\<open>for await (const chunk of stream) { yield ... }\<close>: one element for each chunk\<close>
  "iterator stream = (map chunkResponse (fst stream), snd stream)"

definition embedResponse :: "CreateEmbeddingResponse \<Rightarrow> EmbedContentResponse" where
  "embedResponse res = \<lparr>embeddings = map (\<lambda>e. \<lparr>ce_values = embedding e\<rparr>) (emb_data res)\<rparr>"

subsection \<open>The OpenAI adapter (part 001)\<close>

definition openai_generateContent ::
  "SDK \<Rightarrow> OpenAIClient \<Rightarrow> GenerateContentParameters \<Rightarrow> error + GenerateContentResponse" where
  "openai_generateContent sdk client request =
     (let messages = openai_toOpenAIMessages (Some (orEmptyArray (req_contents request)))
      in case chat_completions_create sdk client (chatParams request messages False) of
           Inl e \<Rightarrow> Inl e
         | Inr completion \<Rightarrow> Inr (completionResponse completion))"

definition openai_generateContentStream ::
  "SDK \<Rightarrow> OpenAIClient \<Rightarrow> GenerateContentParameters
    \<Rightarrow> error + GenerateContentResponse produced" where
  "openai_generateContentStream sdk client request =
     (let messages = openai_toOpenAIMessages (Some (orEmptyArray (req_contents request)))
      in case chat_completions_create_stream sdk client (chatParams request messages True) of
           Inl e \<Rightarrow> Inl e
         | Inr stream \<Rightarrow> Inr (iterator stream))"

definition openai_countTokens :: "CountTokensParameters \<Rightarrow> error + CountTokensResponse" where
  "openai_countTokens req = Inl (Error ''countTokens is not implemented for OpenAI provider'')"

definition openai_embedContent ::
  "SDK \<Rightarrow> OpenAIClient \<Rightarrow> EmbedContentParameters \<Rightarrow> error + EmbedContentResponse" where
  "openai_embedContent sdk client request =
     (case embeddings_create sdk client
             \<lparr>ep_model = emb_model request, ep_input = emb_contents request\<rparr> of
        Inl e \<Rightarrow> Inl e
      | Inr res \<Rightarrow> Inr (embedResponse res))"

definition openai_generator :: "SDK \<Rightarrow> OpenAIClient \<Rightarrow> ContentGenerator" where
  "openai_generator sdk client =
     \<lparr>generateContent = openai_generateContent sdk client,
      generateContentStream = openai_generateContentStream sdk client,
      countTokens = openai_countTokens,
      embedContent = openai_embedContent sdk client,
      userTier = None\<rparr>"

definition keyOrEnv :: "Process \<Rightarrow> string option \<Rightarrow> string \<Rightarrow> string option traced" where
  \<comment> \<open>\<^verbatim>\<open>config.apiKey || process.env.NAME\<close>: the variable is read only when the config has no key\<close>
  "keyOrEnv proc k name =
     (if truthy k then (k, []) else (proc_env proc name, [EnvRead name]))"

definition openai_createProvider :: "SDK \<Rightarrow> createProvider_t" where
  "openai_createProvider sdk proc config gcConfig sessionId =
     (case keyOrEnv proc (cgc_apiKey config) ''OPENAI_API_KEY'' of
        (apiKey, reads) \<Rightarrow>
          (case nonEmpty apiKey of
             None \<Rightarrow> (Inl (Error ''OPENAI_API_KEY is required for OpenAI provider''), reads)
           | Some k \<Rightarrow>
               (Inr (openai_generator sdk \<lparr>openai_apiKey = k\<rparr>), reads @ [NewOpenAI k])))"

subsection \<open>The second OpenAI-client adapter (part 002)\<close>

definition part002_generateContent ::
  "SDK \<Rightarrow> OpenAIClient \<Rightarrow> GenerateContentParameters \<Rightarrow> error + GenerateContentResponse" where
  "part002_generateContent sdk client request =
     (case part002_toOpenAIMessages (orEmptyArray (req_contents request)) of
        Inl e \<Rightarrow> Inl e
      | Inr messages \<Rightarrow>
          (case chat_completions_create sdk client (chatParams request messages False) of
             Inl e \<Rightarrow> Inl e
           | Inr completion \<Rightarrow> Inr (completionResponse completion)))"

definition part002_generateContentStream ::
  "SDK \<Rightarrow> OpenAIClient \<Rightarrow> GenerateContentParameters
    \<Rightarrow> error + GenerateContentResponse produced" where
  "part002_generateContentStream sdk client request =
     (case part002_toOpenAIMessages (orEmptyArray (req_contents request)) of
        Inl e \<Rightarrow> Inl e
      | Inr messages \<Rightarrow>
          (case chat_completions_create_stream sdk client (chatParams request messages True) of
             Inl e \<Rightarrow> Inl e
           | Inr stream \<Rightarrow> Inr (iterator stream)))"

definition part002_generator :: "SDK \<Rightarrow> OpenAIClient \<Rightarrow> ContentGenerator" where
  "part002_generator sdk client =
     \<lparr>generateContent = part002_generateContent sdk client,
      generateContentStream = part002_generateContentStream sdk client,
      countTokens = openai_countTokens,
      embedContent = openai_embedContent sdk client,
      userTier = None\<rparr>"

definition part002_createProvider :: "SDK \<Rightarrow> createProvider_t" where
  "part002_createProvider sdk proc config gcConfig sessionId =
     (case keyOrEnv proc (cgc_apiKey config) ''OPENAI_API_KEY'' of
        (apiKey, reads) \<Rightarrow>
          (case nonEmpty apiKey of
             None \<Rightarrow> (Inl (Error ''OPENAI_API_KEY is required for OpenAI provider''), reads)
           | Some k \<Rightarrow>
               (Inr (part002_generator sdk \<lparr>openai_apiKey = k\<rparr>), reads @ [NewOpenAI k])))"

subsection \<open>The Claude adapter (claudeProvider.ts)\<close>

definition messageText :: "AnthropicMessage \<Rightarrow> string" where
  \<comment> \<open>\<^verbatim>\<open>completion.content?.[0]?.text || ''\<close>\<close>
  "messageText completion =
     (case am_content completion of
        None \<Rightarrow> []
      | Some [] \<Rightarrow> []
      | Some (b # _) \<Rightarrow> orEmpty (block_text b))"

definition claude_generateContent ::
  "SDK \<Rightarrow> AnthropicClient \<Rightarrow> GenerateContentParameters \<Rightarrow> error + GenerateContentResponse" where
  "claude_generateContent sdk client request =
     (let messages = toAnthropicMessages (req_contents request)
      in case messages_create sdk client
                \<lparr>mp_model = req_model request,
                 mp_messages = messages,
                 mp_max_tokens =
                   (case Option.bind (req_config request) cfg_maxOutputTokens of
                      None \<Rightarrow> 1024
                    | Some n \<Rightarrow> n),
                 mp_temperature = Option.bind (req_config request) cfg_temperature\<rparr> of
           Inl e \<Rightarrow> Inl e
         | Inr completion \<Rightarrow>
             Inr \<lparr>candidates = [candidateOf (messageText completion)], usageMetadata = None\<rparr>)"

definition claude_generateContentStream ::
  "GenerateContentParameters \<Rightarrow> error + GenerateContentResponse produced" where
  "claude_generateContentStream request =
     Inl (Error ''Streaming not implemented for Claude provider'')"

definition claude_countTokens :: "CountTokensParameters \<Rightarrow> error + CountTokensResponse" where
  "claude_countTokens req = Inl (Error ''countTokens is not implemented for Claude provider'')"

definition claude_embedContent :: "EmbedContentParameters \<Rightarrow> error + EmbedContentResponse" where
  "claude_embedContent req = Inl (Error ''embedContent is not implemented for Claude provider'')"

definition claude_generator :: "SDK \<Rightarrow> AnthropicClient \<Rightarrow> ContentGenerator" where
  "claude_generator sdk client =
     \<lparr>generateContent = claude_generateContent sdk client,
      generateContentStream = claude_generateContentStream,
      countTokens = claude_countTokens,
      embedContent = claude_embedContent,
      userTier = None\<rparr>"

definition claude_createProvider :: "SDK \<Rightarrow> createProvider_t" where
  "claude_createProvider sdk proc config gcConfig sessionId =
     (case keyOrEnv proc (cgc_apiKey config) ''ANTHROPIC_API_KEY'' of
        (apiKey, reads) \<Rightarrow>
          (case nonEmpty apiKey of
             None \<Rightarrow> (Inl (Error ''ANTHROPIC_API_KEY is required for Claude provider''), reads)
           | Some k \<Rightarrow>
               (Inr (claude_generator sdk \<lparr>anthropic_apiKey = k\<rparr>), reads @ [NewAnthropic k])))"

subsection \<open>The Grok adapter (grokProvider.ts)\<close>

text \<open>
  The file is a placeholder: its constructor looks at neither the configuration nor the
  environment and builds no client, and each of the four operations throws.
\<close>

definition grok_generator :: ContentGenerator where
  "grok_generator =
     \<lparr>generateContent = (\<lambda>request. Inl (Error ''Provider not implemented'')),
      generateContentStream = (\<lambda>request. Inl (Error ''Provider not implemented'')),
      countTokens = (\<lambda>req. Inl (Error ''Provider not implemented'')),
      embedContent = (\<lambda>req. Inl (Error ''Provider not implemented'')),
      userTier = None\<rparr>"

definition grok_createProvider :: createProvider_t where
  "grok_createProvider proc config gcConfig sessionId = (Inr grok_generator, [])"

subsection \<open>The primary adapter (googleGenaiProvider.ts)\<close>

definition cliVersion :: "Process \<Rightarrow> string" where
  \<comment> \<open>\<^verbatim>\<open>process.env.CLI_VERSION || process.version\<close>\<close>
  "cliVersion proc =
     (case nonEmpty (proc_env proc ''CLI_VERSION'') of
        None \<Rightarrow> proc_version proc
      | Some v \<Rightarrow> v)"

definition httpOptionsOf :: "Process \<Rightarrow> HttpOptions" where
  "httpOptionsOf proc =
     \<lparr>http_headers =
        [(''User-Agent'',
          ''GeminiCLI/'' @ cliVersion proc @ '' ('' @ proc_platform proc @ ''; ''
            @ proc_arch proc @ '')'')]\<rparr>"

definition googleGenai_createProvider :: "Imports \<Rightarrow> createProvider_t" where
  "googleGenai_createProvider imp proc config gcConfig sessionId =
     (let opts =
            \<lparr>gopt_apiKey = (if cgc_apiKey config = Some [] then None else cgc_apiKey config),
             gopt_vertexai = cgc_vertexai config,
             gopt_httpOptions = httpOptionsOf proc\<rparr>
      in (Inr (GoogleGenAI_models imp opts), [EnvRead ''CLI_VERSION'', NewGoogleGenAI opts]))"

section \<open>The factory (part 000: contentGenerator.ts)\<close>

text \<open>
  \<open>createContentGeneratorConfig\<close> first evaluates eleven \<^verbatim>\<open>process.env.X || undefined\<close>
  (lines 86 to 96), whatever the auth mode, and then looks at the auth mode. The call of
  \<^verbatim>\<open>getEffectiveModel\<close> (modelCheck.ts, an asynchronous helper outside the repository's
  files) is a statement whose promise is dropped: it is an effect, and neither its value
  nor its failure reaches the caller.
\<close>

definition envNames :: "string list" where
  "envNames =
     [''GEMINI_API_KEY'', ''GOOGLE_API_KEY'', ''GOOGLE_CLOUD_PROJECT'',
      ''GOOGLE_CLOUD_LOCATION'', ''OPENAI_API_KEY'', ''ANTHROPIC_API_KEY'', ''GROK_API_KEY'',
      ''DOUBAO_API_KEY'', ''QWEN_API_KEY'', ''KIMI_API_KEY'', ''DEEPSEEK_API_KEY'']"

definition withKey ::
  "ContentGeneratorConfig \<Rightarrow> string option \<Rightarrow> ContentGeneratorConfig" where
  \<comment> \<open>\<^verbatim>\<open>contentGeneratorConfig.apiKey = key\<close>\<close>
  "withKey c k = c\<lparr>cgc_apiKey := k\<rparr>"

definition createContentGeneratorConfig ::
  "Imports \<Rightarrow> Process \<Rightarrow> Config \<Rightarrow> AuthType option \<Rightarrow> ContentGeneratorConfig traced" where
  "createContentGeneratorConfig imp proc config authType =
     (let geminiApiKey = nonEmpty (proc_env proc ''GEMINI_API_KEY'');
          googleApiKey = nonEmpty (proc_env proc ''GOOGLE_API_KEY'');
          googleCloudProject = nonEmpty (proc_env proc ''GOOGLE_CLOUD_PROJECT'');
          googleCloudLocation = nonEmpty (proc_env proc ''GOOGLE_CLOUD_LOCATION'');
          openaiApiKey = nonEmpty (proc_env proc ''OPENAI_API_KEY'');
          anthropicApiKey = nonEmpty (proc_env proc ''ANTHROPIC_API_KEY'');
          grokApiKey = nonEmpty (proc_env proc ''GROK_API_KEY'');
          doubaoApiKey = nonEmpty (proc_env proc ''DOUBAO_API_KEY'');
          qwenApiKey = nonEmpty (proc_env proc ''QWEN_API_KEY'');
          kimiApiKey = nonEmpty (proc_env proc ''KIMI_API_KEY'');
          deepseekApiKey = nonEmpty (proc_env proc ''DEEPSEEK_API_KEY'');
          reads = map EnvRead envNames;
          effectiveModel =
            (if getModel config \<noteq> [] then getModel config else DEFAULT_GEMINI_MODEL imp);
          contentGeneratorConfig =
            \<lparr>cgc_model = effectiveModel, cgc_provider = None, cgc_apiKey = None,
             cgc_vertexai = None, cgc_authType = authType, cgc_proxy = getProxy config\<rparr>
      in if authType = Some LOGIN_WITH_GOOGLE \<or> authType = Some CLOUD_SHELL
         then (contentGeneratorConfig, reads)
         else if authType = Some USE_GEMINI \<and> geminiApiKey \<noteq> None
         then ((withKey contentGeneratorConfig geminiApiKey)\<lparr>cgc_vertexai := Some False\<rparr>,
               reads @ [GetEffectiveModel (orEmpty geminiApiKey) effectiveModel
                          (getProxy config)])
         else if authType = Some USE_OPENAI \<and> openaiApiKey \<noteq> None
         then (withKey contentGeneratorConfig openaiApiKey, reads)
         else if authType = Some USE_CLAUDE \<and> anthropicApiKey \<noteq> None
         then (withKey contentGeneratorConfig anthropicApiKey, reads)
         else if authType = Some USE_GROK \<and> grokApiKey \<noteq> None
         then (withKey contentGeneratorConfig grokApiKey, reads)
         else if authType = Some USE_DOUBAO \<and> doubaoApiKey \<noteq> None
         then (withKey contentGeneratorConfig doubaoApiKey, reads)
         else if authType = Some USE_QWEN \<and> qwenApiKey \<noteq> None
         then (withKey contentGeneratorConfig qwenApiKey, reads)
         else if authType = Some USE_KIMI \<and> kimiApiKey \<noteq> None
         then (withKey contentGeneratorConfig kimiApiKey, reads)
         else if authType = Some USE_DEEPSEEK \<and> deepseekApiKey \<noteq> None
         then (withKey contentGeneratorConfig deepseekApiKey, reads)
         else if authType = Some USE_VERTEX_AI
                 \<and> (googleApiKey \<noteq> None
                      \<or> (googleCloudProject \<noteq> None \<and> googleCloudLocation \<noteq> None))
         then ((withKey contentGeneratorConfig googleApiKey)\<lparr>cgc_vertexai := Some True\<rparr>,
               reads)
         else (contentGeneratorConfig, reads))"

text \<open>
  \<open>createContentGenerator\<close>: the user agent is built first (one read of
  \<^verbatim>\<open>CLI_VERSION\<close>), then the \<^verbatim>\<open>switch\<close> over the provider tag, \<^verbatim>\<open>gemini\<close> when the
  configuration has none. The OpenAI constructor is the one of part 001.
\<close>

definition createContentGenerator :: "Imports \<Rightarrow> SDK \<Rightarrow> createProvider_t" where
  "createContentGenerator imp sdk proc config gcConfig sessionId =
     (let httpOptions = httpOptionsOf proc;
          pre = [EnvRead ''CLI_VERSION''];
          provider = (case cgc_provider config of None \<Rightarrow> GEMINI | Some p \<Rightarrow> p)
      in if provider = GEMINI then
           (if cgc_authType config = Some LOGIN_WITH_GOOGLE
                \<or> cgc_authType config = Some CLOUD_SHELL
            then prepend pre
                   (createCodeAssistContentGenerator imp proc httpOptions
                      (cgc_authType config) gcConfig sessionId)
            else prepend pre (googleGenai_createProvider imp proc config gcConfig sessionId))
         else if provider = OPENAI then
           prepend pre (openai_createProvider sdk proc config gcConfig sessionId)
         else if provider = CLAUDE then
           prepend pre (claude_createProvider sdk proc config gcConfig sessionId)
         else if provider = GROK then
           prepend pre (grok_createProvider proc config gcConfig sessionId)
         else if provider = DOUBAO then
           prepend pre (createDoubaoProvider imp proc config gcConfig sessionId)
         else if provider = QWEN then
           prepend pre (createQwenProvider imp proc config gcConfig sessionId)
         else if provider = KIMI then
           prepend pre (createKimiProvider imp proc config gcConfig sessionId)
         else if provider = DEEPSEEK then
           prepend pre (createDeepseekProvider imp proc config gcConfig sessionId)
         else
           (Inl (Error (''Error creating contentGenerator: Unsupported provider: '' @ provider)),
            pre))"

section \<open>Reading the claims\<close>

text \<open>
  The key a constructor ends up with, in the words of the specification: the explicit
  configuration value first, the environment variable second, none when both are absent
  or empty.
\<close>

definition requiredKey :: "string option \<Rightarrow> string option \<Rightarrow> string option" where
  "requiredKey explicit fallback =
     (case nonEmpty explicit of Some k \<Rightarrow> Some k | None \<Rightarrow> nonEmpty fallback)"

text \<open>
  The environment variable whose value an auth mode's branch copies into the
  configuration (lines 115 to 170 of part 000), and all the variables whose values the
  branch looks at.
\<close>

fun apiKeyVar :: "AuthType \<Rightarrow> string option" where
  "apiKeyVar LOGIN_WITH_GOOGLE = None"
| "apiKeyVar CLOUD_SHELL = None"
| "apiKeyVar USE_GEMINI = Some ''GEMINI_API_KEY''"
| "apiKeyVar USE_VERTEX_AI = Some ''GOOGLE_API_KEY''"
| "apiKeyVar USE_OPENAI = Some ''OPENAI_API_KEY''"
| "apiKeyVar USE_CLAUDE = Some ''ANTHROPIC_API_KEY''"
| "apiKeyVar USE_GROK = Some ''GROK_API_KEY''"
| "apiKeyVar USE_DOUBAO = Some ''DOUBAO_API_KEY''"
| "apiKeyVar USE_QWEN = Some ''QWEN_API_KEY''"
| "apiKeyVar USE_KIMI = Some ''KIMI_API_KEY''"
| "apiKeyVar USE_DEEPSEEK = Some ''DEEPSEEK_API_KEY''"

fun selectedVars :: "AuthType option \<Rightarrow> string list" where
  "selectedVars None = []"
| "selectedVars (Some USE_VERTEX_AI) =
     [''GOOGLE_API_KEY'', ''GOOGLE_CLOUD_PROJECT'', ''GOOGLE_CLOUD_LOCATION'']"
| "selectedVars (Some a) = (case apiKeyVar a of None \<Rightarrow> [] | Some v \<Rightarrow> [v])"

text \<open>Reading a response the way a caller does: the text of each candidate.\<close>

definition responseTexts :: "GenerateContentResponse \<Rightarrow> string list" where
  "responseTexts r = map (\<lambda>c. concat (map partText (partsOrEmpty (cand_content c)))) (candidates r)"

definition responseRoles :: "GenerateContentResponse \<Rightarrow> string option list" where
  "responseRoles r = map (\<lambda>c. content_role (cand_content c)) (candidates r)"

definition noContent :: "ChatCompletion \<Rightarrow> bool" where
  "noContent completion =
     (case choices completion of
        [] \<Rightarrow> True
      | c # _ \<Rightarrow>
          (case choice_message c of
             None \<Rightarrow> True
           | Some m \<Rightarrow> nonEmpty (cm_content m) = None))"

definition noBlockText :: "AnthropicMessage \<Rightarrow> bool" where
  "noBlockText completion =
     (case am_content completion of
        None \<Rightarrow> True
      | Some [] \<Rightarrow> True
      | Some (b # _) \<Rightarrow> nonEmpty (block_text b) = None)"

section \<open>Sample inputs\<close>

definition sampleProcess :: Process where
  "sampleProcess =
     \<lparr>proc_env = [''OPENAI_API_KEY'' \<mapsto> ''sk-1'', ''GEMINI_API_KEY'' \<mapsto> ''g-1''],
      proc_version = ''v20.0.0'', proc_platform = ''linux'', proc_arch = ''x64''\<rparr>"

definition otherProcess :: Process where
  "otherProcess =
     \<lparr>proc_env = [''OPENAI_API_KEY'' \<mapsto> ''sk-1'', ''GEMINI_API_KEY'' \<mapsto> ''g-2'',
                   ''GROK_API_KEY'' \<mapsto> ''x-3''],
      proc_version = ''v20.0.0'', proc_platform = ''linux'', proc_arch = ''x64''\<rparr>"

definition bareProcess :: Process where
  "bareProcess =
     \<lparr>proc_env = Map.empty,
      proc_version = ''v20.0.0'', proc_platform = ''linux'', proc_arch = ''x64''\<rparr>"

definition sampleSession :: Config where
  "sampleSession = \<lparr>getModel = [], getProxy = None\<rparr>"

definition sampleConfig :: ContentGeneratorConfig where
  "sampleConfig =
     \<lparr>cgc_model = ''m'', cgc_provider = None, cgc_apiKey = None, cgc_vertexai = None,
      cgc_authType = None, cgc_proxy = None\<rparr>"

definition helloRequest :: GenerateContentParameters where
  "helloRequest =
     \<lparr>req_model = ''m'', req_contents = Some (ListString ''hello''), req_config = None\<rparr>"

definition arrayRequest :: GenerateContentParameters where
  "arrayRequest =
     \<lparr>req_model = ''m'',
      req_contents =
        Some (ListArray
          [ItemObject \<lparr>content_role = Some ''user'',
                       content_parts =
                         Some [PartObject \<lparr>part_text = Some ''hello'',
                                            part_inlineData = None\<rparr>]\<rparr>]),
      req_config = None\<rparr>"

definition rolelessTurn :: Content where
  "rolelessTurn =
     \<lparr>content_role = None,
      content_parts =
        Some [PartObject \<lparr>part_text = Some ''a'', part_inlineData = None\<rparr>,
              PartObject \<lparr>part_text = Some ''b'', part_inlineData = None\<rparr>]\<rparr>"

definition deltaChunk :: "string \<Rightarrow> ChatCompletionChunk" where
  "deltaChunk t =
     \<lparr>chunk_choices = [\<lparr>chunk_delta = Some \<lparr>delta_content = Some t\<rparr>\<rparr>]\<rparr>"

text \<open>
  A backend that answers every completion call with the text \<open>hi\<close> and its token counts,
  every streaming call with the deltas \<open>Hel\<close> and \<open>lo\<close>, and a second one that answers
  with no choice at all.
\<close>

definition sampleSDK :: SDK where
  "sampleSDK =
     \<lparr>chat_completions_create =
        (\<lambda>client params.
           Inr \<lparr>choices = [\<lparr>choice_message = Some \<lparr>cm_content = Some ''hi''\<rparr>\<rparr>],
                usage = Some \<lparr>total_tokens = 7\<rparr>\<rparr>),
      chat_completions_create_stream =
        (\<lambda>client params. Inr ([deltaChunk ''Hel'', deltaChunk ''lo''], None)),
      embeddings_create = (\<lambda>client params. Inr \<lparr>emb_data = []\<rparr>),
      messages_create =
        (\<lambda>client params.
           Inr \<lparr>am_content = Some [\<lparr>block_text = Some ''hi''\<rparr>],
                am_usage = Some \<lparr>input_tokens = 3, output_tokens = 4\<rparr>\<rparr>)\<rparr>"

definition silentSDK :: SDK where
  "silentSDK =
     \<lparr>chat_completions_create = (\<lambda>client params. Inr \<lparr>choices = [], usage = None\<rparr>),
      chat_completions_create_stream = (\<lambda>client params. Inr ([], None)),
      embeddings_create = (\<lambda>client params. Inr \<lparr>emb_data = []\<rparr>),
      messages_create = (\<lambda>client params. Inr \<lparr>am_content = None, am_usage = None\<rparr>)\<rparr>"

definition foreignGenerator :: "string \<Rightarrow> ContentGenerator" where
  "foreignGenerator name =
     \<lparr>generateContent = (\<lambda>request. Inl (Error name)),
      generateContentStream = (\<lambda>request. Inl (Error name)),
      countTokens = (\<lambda>req. Inl (Error name)),
      embedContent = (\<lambda>req. Inl (Error name)),
      userTier = Some name\<rparr>"

definition sampleImports :: Imports where
  "sampleImports =
     \<lparr>DEFAULT_GEMINI_MODEL = ''default-model'',
      createCodeAssistContentGenerator =
        (\<lambda>proc httpOptions authType gcConfig sessionId.
           (Inr (foreignGenerator ''codeAssist''), [Foreign ''codeAssist''])),
      createDoubaoProvider =
        (\<lambda>proc config gcConfig sessionId.
           (Inr (foreignGenerator ''doubao''), [Foreign ''doubao''])),
      createQwenProvider =
        (\<lambda>proc config gcConfig sessionId.
           (Inr (foreignGenerator ''qwen''), [Foreign ''qwen''])),
      createKimiProvider =
        (\<lambda>proc config gcConfig sessionId.
           (Inr (foreignGenerator ''kimi''), [Foreign ''kimi''])),
      createDeepseekProvider =
        (\<lambda>proc config gcConfig sessionId.
           (Inr (foreignGenerator ''deepseek''), [Foreign ''deepseek''])),
      GoogleGenAI_models = (\<lambda>opts. foreignGenerator ''googleGenAI.models'')\<rparr>"

section \<open>Properties\<close>

subsection \<open>Basic facts\<close>

lemma notin_Provider:
  "tag \<notin> set Provider \<longleftrightarrow>
     tag \<noteq> GEMINI \<and> tag \<noteq> OPENAI \<and> tag \<noteq> CLAUDE \<and> tag \<noteq> GROK \<and> tag \<noteq> DOUBAO
     \<and> tag \<noteq> QWEN \<and> tag \<noteq> KIMI \<and> tag \<noteq> DEEPSEEK"
  by (auto simp: Provider_def)

lemma provider_tags_distinct:
  "OPENAI \<noteq> GEMINI" "CLAUDE \<noteq> GEMINI" "CLAUDE \<noteq> OPENAI" "GROK \<noteq> GEMINI" "GROK \<noteq> OPENAI"
  "GROK \<noteq> CLAUDE"
  by (simp_all add: GEMINI_def OPENAI_def CLAUDE_def GROK_def)

lemma openai_createProvider_key:
  "fst (openai_createProvider sdk proc config gcConfig sessionId) =
     (case requiredKey (cgc_apiKey config) (proc_env proc ''OPENAI_API_KEY'') of
        Some k \<Rightarrow> Inr (openai_generator sdk \<lparr>openai_apiKey = k\<rparr>)
      | None \<Rightarrow> Inl (Error ''OPENAI_API_KEY is required for OpenAI provider''))"
  by (auto simp: openai_createProvider_def keyOrEnv_def requiredKey_def truthy_def
      split: option.splits prod.splits)

lemma part002_createProvider_key:
  "fst (part002_createProvider sdk proc config gcConfig sessionId) =
     (case requiredKey (cgc_apiKey config) (proc_env proc ''OPENAI_API_KEY'') of
        Some k \<Rightarrow> Inr (part002_generator sdk \<lparr>openai_apiKey = k\<rparr>)
      | None \<Rightarrow> Inl (Error ''OPENAI_API_KEY is required for OpenAI provider''))"
  by (auto simp: part002_createProvider_def keyOrEnv_def requiredKey_def truthy_def
      split: option.splits prod.splits)

lemma claude_createProvider_key:
  "fst (claude_createProvider sdk proc config gcConfig sessionId) =
     (case requiredKey (cgc_apiKey config) (proc_env proc ''ANTHROPIC_API_KEY'') of
        Some k \<Rightarrow> Inr (claude_generator sdk \<lparr>anthropic_apiKey = k\<rparr>)
      | None \<Rightarrow> Inl (Error ''ANTHROPIC_API_KEY is required for Claude provider''))"
  by (auto simp: claude_createProvider_def keyOrEnv_def requiredKey_def truthy_def
      split: option.splits prod.splits)

lemma openai_createProvider_nokey:
  assumes "requiredKey (cgc_apiKey config) (proc_env proc ''OPENAI_API_KEY'') = None"
  shows "openai_createProvider sdk proc config gcConfig sessionId =
           (Inl (Error ''OPENAI_API_KEY is required for OpenAI provider''),
            [EnvRead ''OPENAI_API_KEY''])"
  using assms
  by (auto simp: openai_createProvider_def keyOrEnv_def requiredKey_def truthy_def
      split: option.splits prod.splits)

lemma claude_createProvider_nokey:
  assumes "requiredKey (cgc_apiKey config) (proc_env proc ''ANTHROPIC_API_KEY'') = None"
  shows "claude_createProvider sdk proc config gcConfig sessionId =
           (Inl (Error ''ANTHROPIC_API_KEY is required for Claude provider''),
            [EnvRead ''ANTHROPIC_API_KEY''])"
  using assms
  by (auto simp: claude_createProvider_def keyOrEnv_def requiredKey_def truthy_def
      split: option.splits prod.splits)

lemma part002_createProvider_nokey:
  assumes "requiredKey (cgc_apiKey config) (proc_env proc ''OPENAI_API_KEY'') = None"
  shows "part002_createProvider sdk proc config gcConfig sessionId =
           (Inl (Error ''OPENAI_API_KEY is required for OpenAI provider''),
            [EnvRead ''OPENAI_API_KEY''])"
  using assms
  by (auto simp: part002_createProvider_def keyOrEnv_def requiredKey_def truthy_def
      split: option.splits prod.splits)

lemma reads_all_envNames:
  "take (length envNames) (snd (createContentGeneratorConfig imp proc config authType))
     = map EnvRead envNames"
  by (simp add: createContentGeneratorConfig_def Let_def)

lemma candidateOf_role: "content_role (cand_content (candidateOf t)) = Some ''model''"
  by (simp add: candidateOf_def)

lemma candidateOf_text: "concat (map partText (partsOrEmpty (cand_content (candidateOf t)))) = t"
  by (simp add: candidateOf_def partsOrEmpty_def partText_def orEmpty_def)

lemma completionResponse_shape:
  "candidates (completionResponse completion) = [candidateOf (completionText completion)]"
  "responseRoles (completionResponse completion) = [Some ''model'']"
  "responseTexts (completionResponse completion) = [completionText completion]"
  "usageMetadata (completionResponse completion) =
     Some \<lparr>totalTokens = map_option total_tokens (usage completion)\<rparr>"
  by (simp_all add: completionResponse_def responseRoles_def responseTexts_def
      candidateOf_role candidateOf_text)

lemma chunkResponse_shape:
  "candidates (chunkResponse chunk) = [candidateOf (chunkText chunk)]"
  "responseRoles (chunkResponse chunk) = [Some ''model'']"
  "responseTexts (chunkResponse chunk) = [chunkText chunk]"
  "usageMetadata (chunkResponse chunk) = None"
  by (simp_all add: chunkResponse_def responseRoles_def responseTexts_def
      candidateOf_role candidateOf_text)

lemma iterator_shape:
  "snd (iterator (chunks, ending)) = ending"
  "length (fst (iterator (chunks, ending))) = length chunks"
  "map responseTexts (fst (iterator (chunks, ending))) = map (\<lambda>c. [chunkText c]) chunks"
  "map responseRoles (fst (iterator (chunks, ending))) = map (\<lambda>c. [Some ''model'']) chunks"
  by (simp_all add: iterator_def chunkResponse_shape comp_def)

lemma chunkText_deltaChunk: "chunkText (deltaChunk t) = t"
  by (simp add: chunkText_def deltaChunk_def orEmpty_def)

lemma noContent_text: "noContent completion \<Longrightarrow> completionText completion = []"
  by (auto simp: noContent_def completionText_def orEmpty_def nonEmpty_def
      split: list.splits option.splits if_splits)

lemma noBlockText_text: "noBlockText completion \<Longrightarrow> messageText completion = []"
  by (auto simp: noBlockText_def messageText_def orEmpty_def nonEmpty_def
      split: list.splits option.splits if_splits)

lemma openai_generateContent_returns:
  assumes "chat_completions_create sdk client
             (chatParams request
                (openai_toOpenAIMessages (Some (orEmptyArray (req_contents request)))) False)
           = Inr completion"
  shows "openai_generateContent sdk client request = Inr (completionResponse completion)"
  using assms by (simp add: openai_generateContent_def Let_def)

lemma part002_generateContent_returns:
  assumes "part002_toOpenAIMessages (orEmptyArray (req_contents request)) = Inr messages"
    and "chat_completions_create sdk client (chatParams request messages False) = Inr completion"
  shows "part002_generateContent sdk client request = Inr (completionResponse completion)"
  using assms by (simp add: part002_generateContent_def)

lemma claude_generateContent_returns:
  assumes "messages_create sdk client
             \<lparr>mp_model = req_model request,
              mp_messages = toAnthropicMessages (req_contents request),
              mp_max_tokens =
                (case Option.bind (req_config request) cfg_maxOutputTokens of
                   None \<Rightarrow> 1024 | Some n \<Rightarrow> n),
              mp_temperature = Option.bind (req_config request) cfg_temperature\<rparr>
           = Inr completion"
  shows "claude_generateContent sdk client request =
           Inr \<lparr>candidates = [candidateOf (messageText completion)], usageMetadata = None\<rparr>"
  using assms by (simp add: claude_generateContent_def Let_def)

subsection \<open>Construction and the API key\<close>

text \<open>
  Claim C1, as the code has it. The OpenAI adapter, the second OpenAI-client adapter and
  the Claude adapter construct with the key the configuration gives, else with the key
  of their environment variable, and fail when both are absent or empty, with a message
  that names the variable; the failure is the result of creating the generator, and no
  client has been constructed. The Grok adapter is a placeholder whose
  construction succeeds whatever the configuration and the environment hold.
\<close>

theorem key_required_at_construction:
  "fst (openai_createProvider sdk proc config gcConfig sessionId) =
     (case requiredKey (cgc_apiKey config) (proc_env proc ''OPENAI_API_KEY'') of
        Some k \<Rightarrow> Inr (openai_generator sdk \<lparr>openai_apiKey = k\<rparr>)
      | None \<Rightarrow> Inl (Error ''OPENAI_API_KEY is required for OpenAI provider''))
   \<and> fst (part002_createProvider sdk proc config gcConfig sessionId) =
     (case requiredKey (cgc_apiKey config) (proc_env proc ''OPENAI_API_KEY'') of
        Some k \<Rightarrow> Inr (part002_generator sdk \<lparr>openai_apiKey = k\<rparr>)
      | None \<Rightarrow> Inl (Error ''OPENAI_API_KEY is required for OpenAI provider''))
   \<and> fst (claude_createProvider sdk proc config gcConfig sessionId) =
     (case requiredKey (cgc_apiKey config) (proc_env proc ''ANTHROPIC_API_KEY'') of
        Some k \<Rightarrow> Inr (claude_generator sdk \<lparr>anthropic_apiKey = k\<rparr>)
      | None \<Rightarrow> Inl (Error ''ANTHROPIC_API_KEY is required for Claude provider''))
   \<and> (cgc_provider config = Some OPENAI
        \<and> requiredKey (cgc_apiKey config) (proc_env proc ''OPENAI_API_KEY'') = None
       \<longrightarrow> createContentGenerator imp sdk proc config gcConfig sessionId =
             (Inl (Error ''OPENAI_API_KEY is required for OpenAI provider''),
              [EnvRead ''CLI_VERSION'', EnvRead ''OPENAI_API_KEY'']))
   \<and> (cgc_provider config = Some CLAUDE
        \<and> requiredKey (cgc_apiKey config) (proc_env proc ''ANTHROPIC_API_KEY'') = None
       \<longrightarrow> createContentGenerator imp sdk proc config gcConfig sessionId =
             (Inl (Error ''ANTHROPIC_API_KEY is required for Claude provider''),
              [EnvRead ''CLI_VERSION'', EnvRead ''ANTHROPIC_API_KEY'']))
   \<and> grok_createProvider proc config gcConfig sessionId = (Inr grok_generator, [])
   \<and> (requiredKey (cgc_apiKey config) (proc_env proc ''OPENAI_API_KEY'') = None
       \<longrightarrow> part002_createProvider sdk proc config gcConfig sessionId =
             (Inl (Error ''OPENAI_API_KEY is required for OpenAI provider''),
              [EnvRead ''OPENAI_API_KEY'']))"
proof (intro conjI impI)
  show "fst (openai_createProvider sdk proc config gcConfig sessionId) =
     (case requiredKey (cgc_apiKey config) (proc_env proc ''OPENAI_API_KEY'') of
        Some k \<Rightarrow> Inr (openai_generator sdk \<lparr>openai_apiKey = k\<rparr>)
      | None \<Rightarrow> Inl (Error ''OPENAI_API_KEY is required for OpenAI provider''))"
    by (rule openai_createProvider_key)
  show "fst (part002_createProvider sdk proc config gcConfig sessionId) =
     (case requiredKey (cgc_apiKey config) (proc_env proc ''OPENAI_API_KEY'') of
        Some k \<Rightarrow> Inr (part002_generator sdk \<lparr>openai_apiKey = k\<rparr>)
      | None \<Rightarrow> Inl (Error ''OPENAI_API_KEY is required for OpenAI provider''))"
    by (rule part002_createProvider_key)
  show "fst (claude_createProvider sdk proc config gcConfig sessionId) =
     (case requiredKey (cgc_apiKey config) (proc_env proc ''ANTHROPIC_API_KEY'') of
        Some k \<Rightarrow> Inr (claude_generator sdk \<lparr>anthropic_apiKey = k\<rparr>)
      | None \<Rightarrow> Inl (Error ''ANTHROPIC_API_KEY is required for Claude provider''))"
    by (rule claude_createProvider_key)
  show "grok_createProvider proc config gcConfig sessionId = (Inr grok_generator, [])"
    by (simp add: grok_createProvider_def)
next
  assume h: "cgc_provider config = Some OPENAI
        \<and> requiredKey (cgc_apiKey config) (proc_env proc ''OPENAI_API_KEY'') = None"
  then show "createContentGenerator imp sdk proc config gcConfig sessionId =
             (Inl (Error ''OPENAI_API_KEY is required for OpenAI provider''),
              [EnvRead ''CLI_VERSION'', EnvRead ''OPENAI_API_KEY''])"
    by (simp add: createContentGenerator_def Let_def provider_tags_distinct prepend_def
        openai_createProvider_nokey)
next
  assume h: "cgc_provider config = Some CLAUDE
        \<and> requiredKey (cgc_apiKey config) (proc_env proc ''ANTHROPIC_API_KEY'') = None"
  then show "createContentGenerator imp sdk proc config gcConfig sessionId =
             (Inl (Error ''ANTHROPIC_API_KEY is required for Claude provider''),
              [EnvRead ''CLI_VERSION'', EnvRead ''ANTHROPIC_API_KEY''])"
    by (simp add: createContentGenerator_def Let_def provider_tags_distinct prepend_def
        claude_createProvider_nokey)
next
  assume "requiredKey (cgc_apiKey config) (proc_env proc ''OPENAI_API_KEY'') = None"
  then show "part002_createProvider sdk proc config gcConfig sessionId =
             (Inl (Error ''OPENAI_API_KEY is required for OpenAI provider''),
              [EnvRead ''OPENAI_API_KEY''])"
    by (rule part002_createProvider_nokey)
qed

theorem key_required_at_construction_witness:
  "createContentGenerator sampleImports sampleSDK bareProcess
     (sampleConfig\<lparr>cgc_provider := Some OPENAI\<rparr>) sampleSession None =
     (Inl (Error ''OPENAI_API_KEY is required for OpenAI provider''),
      [EnvRead ''CLI_VERSION'', EnvRead ''OPENAI_API_KEY''])
   \<and> createContentGenerator sampleImports sampleSDK bareProcess
     (sampleConfig\<lparr>cgc_provider := Some CLAUDE\<rparr>) sampleSession None =
     (Inl (Error ''ANTHROPIC_API_KEY is required for Claude provider''),
      [EnvRead ''CLI_VERSION'', EnvRead ''ANTHROPIC_API_KEY''])
   \<and> fst (openai_createProvider sampleSDK sampleProcess sampleConfig sampleSession None) =
       Inr (openai_generator sampleSDK \<lparr>openai_apiKey = ''sk-1''\<rparr>)
   \<and> fst (openai_createProvider sampleSDK sampleProcess
            (sampleConfig\<lparr>cgc_apiKey := Some ''sk-0''\<rparr>) sampleSession None) =
       Inr (openai_generator sampleSDK \<lparr>openai_apiKey = ''sk-0''\<rparr>)
   \<and> part002_createProvider sampleSDK bareProcess
        (sampleConfig\<lparr>cgc_provider := Some OPENAI\<rparr>) sampleSession None =
      (Inl (Error ''OPENAI_API_KEY is required for OpenAI provider''),
       [EnvRead ''OPENAI_API_KEY''])"
proof -
  have a: "cgc_provider (sampleConfig\<lparr>cgc_provider := Some OPENAI\<rparr>) = Some OPENAI
        \<and> requiredKey (cgc_apiKey (sampleConfig\<lparr>cgc_provider := Some OPENAI\<rparr>))
             (proc_env bareProcess ''OPENAI_API_KEY'') = None"
    by (simp add: sampleConfig_def bareProcess_def requiredKey_def nonEmpty_def)
  have b: "cgc_provider (sampleConfig\<lparr>cgc_provider := Some CLAUDE\<rparr>) = Some CLAUDE
        \<and> requiredKey (cgc_apiKey (sampleConfig\<lparr>cgc_provider := Some CLAUDE\<rparr>))
             (proc_env bareProcess ''ANTHROPIC_API_KEY'') = None"
    by (simp add: sampleConfig_def bareProcess_def requiredKey_def nonEmpty_def)
  have c: "requiredKey (cgc_apiKey sampleConfig) (proc_env sampleProcess ''OPENAI_API_KEY'')
             = Some ''sk-1''"
    by (simp add: sampleConfig_def sampleProcess_def requiredKey_def nonEmpty_def)
  have d: "requiredKey (cgc_apiKey (sampleConfig\<lparr>cgc_apiKey := Some ''sk-0''\<rparr>))
             (proc_env sampleProcess ''OPENAI_API_KEY'') = Some ''sk-0''"
    by (simp add: sampleConfig_def sampleProcess_def requiredKey_def nonEmpty_def)
  note t1 = key_required_at_construction
      [of sampleSDK bareProcess "sampleConfig\<lparr>cgc_provider := Some OPENAI\<rparr>" sampleSession None
          sampleImports]
  note t2 = key_required_at_construction
      [of sampleSDK bareProcess "sampleConfig\<lparr>cgc_provider := Some CLAUDE\<rparr>" sampleSession None
          sampleImports]
  note t3 = key_required_at_construction
      [of sampleSDK sampleProcess sampleConfig sampleSession None sampleImports]
  note t4 = key_required_at_construction
      [of sampleSDK sampleProcess "sampleConfig\<lparr>cgc_apiKey := Some ''sk-0''\<rparr>" sampleSession None
          sampleImports]
  from t1 a have 1: "createContentGenerator sampleImports sampleSDK bareProcess
     (sampleConfig\<lparr>cgc_provider := Some OPENAI\<rparr>) sampleSession None =
     (Inl (Error ''OPENAI_API_KEY is required for OpenAI provider''),
      [EnvRead ''CLI_VERSION'', EnvRead ''OPENAI_API_KEY''])" by blast
  from t2 b have 2: "createContentGenerator sampleImports sampleSDK bareProcess
     (sampleConfig\<lparr>cgc_provider := Some CLAUDE\<rparr>) sampleSession None =
     (Inl (Error ''ANTHROPIC_API_KEY is required for Claude provider''),
      [EnvRead ''CLI_VERSION'', EnvRead ''ANTHROPIC_API_KEY''])" by blast
  from t3 have 3: "fst (openai_createProvider sampleSDK sampleProcess sampleConfig sampleSession None) =
       Inr (openai_generator sampleSDK \<lparr>openai_apiKey = ''sk-1''\<rparr>)"
    unfolding c by simp
  from t4 have 4: "fst (openai_createProvider sampleSDK sampleProcess
            (sampleConfig\<lparr>cgc_apiKey := Some ''sk-0''\<rparr>) sampleSession None) =
       Inr (openai_generator sampleSDK \<lparr>openai_apiKey = ''sk-0''\<rparr>)"
    unfolding d by simp
  from a
    t1 [THEN conjunct2, THEN conjunct2, THEN conjunct2, THEN conjunct2, THEN conjunct2,
        THEN conjunct2]
  have 5: "part002_createProvider sampleSDK bareProcess
        (sampleConfig\<lparr>cgc_provider := Some OPENAI\<rparr>) sampleSession None =
      (Inl (Error ''OPENAI_API_KEY is required for OpenAI provider''),
       [EnvRead ''OPENAI_API_KEY''])" by blast
  from 1 2 3 4 5 show ?thesis by blast
qed

text \<open>
  Claim C1 as stated fails for the Grok adapter: with no key in the configuration and an
  empty environment, the factory returns its generator.
\<close>

theorem grok_needs_no_key_counterexample:
  "requiredKey (cgc_apiKey (sampleConfig\<lparr>cgc_provider := Some GROK\<rparr>))
     (proc_env bareProcess ''GROK_API_KEY'') = None
   \<and> createContentGenerator sampleImports sampleSDK bareProcess
        (sampleConfig\<lparr>cgc_provider := Some GROK\<rparr>) sampleSession None =
      (Inr grok_generator, [EnvRead ''CLI_VERSION''])"
  by (simp add: createContentGenerator_def Let_def provider_tags_distinct prepend_def
      grok_createProvider_def sampleConfig_def bareProcess_def requiredKey_def nonEmpty_def)

subsection \<open>The factory's dispatch\<close>

text \<open>
  Claim C2. A provider tag outside the enumeration makes \<open>createContentGenerator\<close> fail
  with the message \<^verbatim>\<open>Error creating contentGenerator: Unsupported provider: \<close> followed
  by the tag. The only effect before the failure is the read of \<^verbatim>\<open>CLI_VERSION\<close> for the
  user agent: no client is constructed and no imported constructor is called (the
  result does not depend on them).
\<close>

theorem unsupported_provider_fails:
  assumes "cgc_provider config = Some tag" and "tag \<notin> set Provider"
  shows "createContentGenerator imp sdk proc config gcConfig sessionId =
           (Inl (Error (''Error creating contentGenerator: Unsupported provider: '' @ tag)),
            [EnvRead ''CLI_VERSION''])
         \<and> filter constructsClient
              (snd (createContentGenerator imp sdk proc config gcConfig sessionId)) = []"
proof -
  from assms(2) have ne: "tag \<noteq> GEMINI" "tag \<noteq> OPENAI" "tag \<noteq> CLAUDE" "tag \<noteq> GROK"
    "tag \<noteq> DOUBAO" "tag \<noteq> QWEN" "tag \<noteq> KIMI" "tag \<noteq> DEEPSEEK"
    by (simp_all add: notin_Provider)
  have "createContentGenerator imp sdk proc config gcConfig sessionId =
           (Inl (Error (''Error creating contentGenerator: Unsupported provider: '' @ tag)),
            [EnvRead ''CLI_VERSION''])"
    using assms(1) ne by (simp add: createContentGenerator_def Let_def)
  then show ?thesis by simp
qed

theorem unsupported_provider_fails_witness:
  "createContentGenerator sampleImports sampleSDK sampleProcess
     (sampleConfig\<lparr>cgc_provider := Some ''mistral''\<rparr>) sampleSession None =
     (Inl (Error ''Error creating contentGenerator: Unsupported provider: mistral''),
      [EnvRead ''CLI_VERSION''])
   \<and> filter constructsClient
        (snd (createContentGenerator sampleImports sampleSDK sampleProcess
               (sampleConfig\<lparr>cgc_provider := Some ''mistral''\<rparr>) sampleSession None)) = []"
proof -
  have a: "cgc_provider (sampleConfig\<lparr>cgc_provider := Some ''mistral''\<rparr>) = Some ''mistral''"
    by simp
  have b: "''mistral'' \<notin> set Provider"
    by (simp add: Provider_def GEMINI_def OPENAI_def CLAUDE_def GROK_def DOUBAO_def QWEN_def
        KIMI_def DEEPSEEK_def)
  from unsupported_provider_fails [OF a b, of sampleImports sampleSDK sampleProcess sampleSession None]
  show ?thesis by simp
qed

text \<open>
  Claim C10. A configuration without a provider is dispatched as \<^verbatim>\<open>gemini\<close>: under
  \<open>LOGIN_WITH_GOOGLE\<close> and \<open>CLOUD_SHELL\<close> the result is the one of the Code Assist
  factory, called with the user-agent options, the auth mode, the session configuration
  and the session id; otherwise the Google client is constructed and its model surface is
  the generator.
\<close>

theorem absent_provider_is_gemini:
  assumes "cgc_provider config = None"
  shows "createContentGenerator imp sdk proc config gcConfig sessionId =
           createContentGenerator imp sdk proc (config\<lparr>cgc_provider := Some GEMINI\<rparr>)
             gcConfig sessionId
         \<and> createContentGenerator imp sdk proc config gcConfig sessionId =
             (if cgc_authType config = Some LOGIN_WITH_GOOGLE
                  \<or> cgc_authType config = Some CLOUD_SHELL
              then prepend [EnvRead ''CLI_VERSION'']
                     (createCodeAssistContentGenerator imp proc (httpOptionsOf proc)
                        (cgc_authType config) gcConfig sessionId)
              else prepend [EnvRead ''CLI_VERSION'']
                     (googleGenai_createProvider imp proc config gcConfig sessionId))
         \<and> (cgc_authType config \<noteq> Some LOGIN_WITH_GOOGLE
              \<and> cgc_authType config \<noteq> Some CLOUD_SHELL
             \<longrightarrow> (\<exists>opts. createContentGenerator imp sdk proc config gcConfig sessionId =
                          (Inr (GoogleGenAI_models imp opts),
                           [EnvRead ''CLI_VERSION'', EnvRead ''CLI_VERSION'', NewGoogleGenAI opts])))"
  using assms
  by (simp add: createContentGenerator_def Let_def googleGenai_createProvider_def prepend_def)

theorem absent_provider_is_gemini_witness:
  "createContentGenerator sampleImports sampleSDK sampleProcess sampleConfig sampleSession None =
     createContentGenerator sampleImports sampleSDK sampleProcess
       (sampleConfig\<lparr>cgc_provider := Some GEMINI\<rparr>) sampleSession None
   \<and> fst (createContentGenerator sampleImports sampleSDK sampleProcess sampleConfig
            sampleSession None) = Inr (foreignGenerator ''googleGenAI.models'')
   \<and> createContentGenerator sampleImports sampleSDK sampleProcess
        (sampleConfig\<lparr>cgc_authType := Some LOGIN_WITH_GOOGLE\<rparr>) sampleSession None =
      (Inr (foreignGenerator ''codeAssist''), [EnvRead ''CLI_VERSION'', Foreign ''codeAssist''])"
proof -
  have a: "cgc_provider sampleConfig = None"
    by (simp add: sampleConfig_def)
  have b: "cgc_provider (sampleConfig\<lparr>cgc_authType := Some LOGIN_WITH_GOOGLE\<rparr>) = None"
    by (simp add: sampleConfig_def)
  note t1 = absent_provider_is_gemini
      [OF a, of sampleImports sampleSDK sampleProcess sampleSession None]
  note t2 = absent_provider_is_gemini
      [OF b, of sampleImports sampleSDK sampleProcess sampleSession None]
  from t1 have 1: "createContentGenerator sampleImports sampleSDK sampleProcess sampleConfig
      sampleSession None =
     createContentGenerator sampleImports sampleSDK sampleProcess
       (sampleConfig\<lparr>cgc_provider := Some GEMINI\<rparr>) sampleSession None"
    by blast
  have na: "cgc_authType sampleConfig = None"
    by (simp add: sampleConfig_def)
  have models: "GoogleGenAI_models sampleImports = (\<lambda>opts. foreignGenerator ''googleGenAI.models'')"
    by (simp add: sampleImports_def)
  from t1 [THEN conjunct2, THEN conjunct1]
  have 2: "fst (createContentGenerator sampleImports sampleSDK sampleProcess sampleConfig
            sampleSession None) = Inr (foreignGenerator ''googleGenAI.models'')"
    by (simp add: na prepend_def googleGenai_createProvider_def Let_def models)
  have assist: "createCodeAssistContentGenerator sampleImports =
      (\<lambda>proc httpOptions authType gcConfig sessionId.
         (Inr (foreignGenerator ''codeAssist''), [Foreign ''codeAssist'']))"
    by (simp add: sampleImports_def)
  from t2 [THEN conjunct2, THEN conjunct1]
  have 3: "createContentGenerator sampleImports sampleSDK sampleProcess
        (sampleConfig\<lparr>cgc_authType := Some LOGIN_WITH_GOOGLE\<rparr>) sampleSession None =
      (Inr (foreignGenerator ''codeAssist''), [EnvRead ''CLI_VERSION'', Foreign ''codeAssist''])"
    by (simp add: prepend_def assist)
  from 1 2 3 show ?thesis by blast
qed

subsection \<open>Resolving the configuration\<close>

text \<open>
  Claim C3. \<open>createContentGeneratorConfig\<close> has no failing path: it returns a
  configuration for every input. Under \<open>LOGIN_WITH_GOOGLE\<close> and \<open>CLOUD_SHELL\<close> it returns
  the initial configuration (model, auth mode, proxy) at once; under a key-based mode
  whose environment key is absent or empty the configuration it returns has no key, and
  carries the auth mode and the proxy.
\<close>

theorem resolution_defers_missing_keys:
  "(authType = Some LOGIN_WITH_GOOGLE \<or> authType = Some CLOUD_SHELL \<longrightarrow>
      createContentGeneratorConfig imp proc config authType =
        (\<lparr>cgc_model = (if getModel config \<noteq> [] then getModel config
                         else DEFAULT_GEMINI_MODEL imp),
          cgc_provider = None, cgc_apiKey = None, cgc_vertexai = None,
          cgc_authType = authType, cgc_proxy = getProxy config\<rparr>,
         map EnvRead envNames))
   \<and> (\<forall>a v. authType = Some a \<longrightarrow> apiKeyVar a = Some v \<longrightarrow> nonEmpty (proc_env proc v) = None \<longrightarrow>
          cgc_apiKey (fst (createContentGeneratorConfig imp proc config authType)) = None
          \<and> cgc_authType (fst (createContentGeneratorConfig imp proc config authType)) = authType
          \<and> cgc_proxy (fst (createContentGeneratorConfig imp proc config authType)) = getProxy config)"
proof (intro conjI allI impI)
  assume "authType = Some LOGIN_WITH_GOOGLE \<or> authType = Some CLOUD_SHELL"
  then show "createContentGeneratorConfig imp proc config authType =
        (\<lparr>cgc_model = (if getModel config \<noteq> [] then getModel config
                         else DEFAULT_GEMINI_MODEL imp),
          cgc_provider = None, cgc_apiKey = None, cgc_vertexai = None,
          cgc_authType = authType, cgc_proxy = getProxy config\<rparr>,
         map EnvRead envNames)"
    by (auto simp: createContentGeneratorConfig_def Let_def)
next
  fix a v
  assume h: "authType = Some a" "apiKeyVar a = Some v" "nonEmpty (proc_env proc v) = None"
  then show "cgc_apiKey (fst (createContentGeneratorConfig imp proc config authType)) = None"
    by (cases a) (simp_all add: createContentGeneratorConfig_def Let_def withKey_def)
  from h show "cgc_authType (fst (createContentGeneratorConfig imp proc config authType)) = authType"
    by (cases a) (simp_all add: createContentGeneratorConfig_def Let_def withKey_def)
  from h show "cgc_proxy (fst (createContentGeneratorConfig imp proc config authType)) = getProxy config"
    by (cases a) (simp_all add: createContentGeneratorConfig_def Let_def withKey_def)
qed

theorem resolution_defers_missing_keys_witness:
  "createContentGeneratorConfig sampleImports sampleProcess sampleSession (Some CLOUD_SHELL) =
     (\<lparr>cgc_model = ''default-model'', cgc_provider = None, cgc_apiKey = None,
       cgc_vertexai = None, cgc_authType = Some CLOUD_SHELL, cgc_proxy = None\<rparr>,
      map EnvRead envNames)
   \<and> cgc_apiKey (fst (createContentGeneratorConfig sampleImports sampleProcess sampleSession
                        (Some USE_CLAUDE))) = None
   \<and> cgc_apiKey (fst (createContentGeneratorConfig sampleImports bareProcess sampleSession
                        (Some USE_VERTEX_AI))) = None"
proof -
  note t1 = resolution_defers_missing_keys
      [of "Some CLOUD_SHELL" sampleImports sampleProcess sampleSession]
  note t2 = resolution_defers_missing_keys
      [of "Some USE_CLAUDE" sampleImports sampleProcess sampleSession]
  note t3 = resolution_defers_missing_keys
      [of "Some USE_VERTEX_AI" sampleImports bareProcess sampleSession]
  from t1 have 1: "createContentGeneratorConfig sampleImports sampleProcess sampleSession
      (Some CLOUD_SHELL) =
     (\<lparr>cgc_model = ''default-model'', cgc_provider = None, cgc_apiKey = None,
       cgc_vertexai = None, cgc_authType = Some CLOUD_SHELL, cgc_proxy = None\<rparr>,
      map EnvRead envNames)"
    by (simp add: sampleSession_def sampleImports_def)
  have "apiKeyVar USE_CLAUDE = Some ''ANTHROPIC_API_KEY''
        \<and> nonEmpty (proc_env sampleProcess ''ANTHROPIC_API_KEY'') = None"
    by (simp add: sampleProcess_def nonEmpty_def)
  with t2 have 2: "cgc_apiKey (fst (createContentGeneratorConfig sampleImports sampleProcess
      sampleSession (Some USE_CLAUDE))) = None"
    by blast
  have "apiKeyVar USE_VERTEX_AI = Some ''GOOGLE_API_KEY''
        \<and> nonEmpty (proc_env bareProcess ''GOOGLE_API_KEY'') = None"
    by (simp add: bareProcess_def nonEmpty_def)
  with t3 have 3: "cgc_apiKey (fst (createContentGeneratorConfig sampleImports bareProcess
      sampleSession (Some USE_VERTEX_AI))) = None"
    by blast
  from 1 2 3 show ?thesis by blast
qed

text \<open>
  Claim C9, as the code has it. Two environments that agree on the variables of the
  selected auth mode give the same result, whatever the other providers' variables hold:
  no unrelated key is validated or reaches the configuration. Every call begins with the
  reads of all eleven variables.
\<close>

theorem config_depends_on_selected_vars_only:
  assumes "\<forall>v \<in> set (selectedVars authType). proc_env p1 v = proc_env p2 v"
  shows "createContentGeneratorConfig imp p1 config authType =
         createContentGeneratorConfig imp p2 config authType
         \<and> take (length envNames) (snd (createContentGeneratorConfig imp p1 config authType))
             = map EnvRead envNames"
proof
  show "createContentGeneratorConfig imp p1 config authType =
        createContentGeneratorConfig imp p2 config authType"
  proof (cases authType)
    case None
    then show ?thesis by (simp add: createContentGeneratorConfig_def Let_def)
  next
    case (Some a)
    with assms show ?thesis
      by (cases a) (simp_all add: createContentGeneratorConfig_def Let_def)
  qed
  show "take (length envNames) (snd (createContentGeneratorConfig imp p1 config authType))
          = map EnvRead envNames"
    by (rule reads_all_envNames)
qed

theorem config_depends_on_selected_vars_only_witness:
  "proc_env sampleProcess ''GEMINI_API_KEY'' \<noteq> proc_env otherProcess ''GEMINI_API_KEY''
   \<and> proc_env sampleProcess ''GROK_API_KEY'' \<noteq> proc_env otherProcess ''GROK_API_KEY''
   \<and> createContentGeneratorConfig sampleImports sampleProcess sampleSession (Some USE_OPENAI) =
      createContentGeneratorConfig sampleImports otherProcess sampleSession (Some USE_OPENAI)
   \<and> cgc_apiKey (fst (createContentGeneratorConfig sampleImports otherProcess sampleSession
                        (Some USE_OPENAI))) = Some ''sk-1''"
proof -
  have h: "\<forall>v \<in> set (selectedVars (Some USE_OPENAI)).
             proc_env sampleProcess v = proc_env otherProcess v"
    by (simp add: sampleProcess_def otherProcess_def)
  from config_depends_on_selected_vars_only [OF h, of sampleImports sampleSession, THEN conjunct1]
  have 1: "createContentGeneratorConfig sampleImports sampleProcess sampleSession (Some USE_OPENAI) =
      createContentGeneratorConfig sampleImports otherProcess sampleSession (Some USE_OPENAI)" .
  have 2: "cgc_apiKey (fst (createContentGeneratorConfig sampleImports otherProcess sampleSession
                        (Some USE_OPENAI))) = Some ''sk-1''"
    by (simp add: createContentGeneratorConfig_def Let_def otherProcess_def nonEmpty_def
        withKey_def)
  from 1 2 show ?thesis by (simp add: sampleProcess_def otherProcess_def)
qed

text \<open>
  Claim C9 as stated says that no unrelated key is read. The function reads all eleven
  variables before it looks at the auth mode: under \<open>USE_OPENAI\<close> it reads
  \<^verbatim>\<open>GEMINI_API_KEY\<close>.
\<close>

theorem unrelated_keys_are_read_counterexample:
  "EnvRead ''GEMINI_API_KEY''
     \<in> set (snd (createContentGeneratorConfig sampleImports sampleProcess sampleSession
                   (Some USE_OPENAI)))
   \<and> ''GEMINI_API_KEY'' \<notin> set (selectedVars (Some USE_OPENAI))"
  by (simp add: createContentGeneratorConfig_def Let_def sampleProcess_def nonEmpty_def
      envNames_def)

subsection \<open>Sample backends\<close>

lemma sample_chat:
  "chat_completions_create sampleSDK client params =
     Inr \<lparr>choices = [\<lparr>choice_message = Some \<lparr>cm_content = Some ''hi''\<rparr>\<rparr>],
          usage = Some \<lparr>total_tokens = 7\<rparr>\<rparr>"
  by (simp add: sampleSDK_def)

lemma sample_messages:
  "messages_create sampleSDK client params =
     Inr \<lparr>am_content = Some [\<lparr>block_text = Some ''hi''\<rparr>],
          am_usage = Some \<lparr>input_tokens = 3, output_tokens = 4\<rparr>\<rparr>"
  by (simp add: sampleSDK_def)

lemma silent_chat:
  "chat_completions_create silentSDK client params = Inr \<lparr>choices = [], usage = None\<rparr>"
  by (simp add: silentSDK_def)

lemma silent_messages:
  "messages_create silentSDK client params = Inr \<lparr>am_content = None, am_usage = None\<rparr>"
  by (simp add: silentSDK_def)

lemma arrayRequest_messages:
  "part002_toOpenAIMessages (orEmptyArray (req_contents arrayRequest)) =
     Inr [\<lparr>msg_role = Some ''user'', msg_content = ''hello''\<rparr>]"
  by (simp add: arrayRequest_def orEmptyArray_def part002_toOpenAIMessages_def
      part002_partText_def orEmpty_def)

subsection \<open>Single-shot generation\<close>

text \<open>
  Claim C4, as the code has it. Whenever the backend call returns, \<open>generateContent\<close> of
  the OpenAI adapter and of the Claude adapter returns a response with exactly one
  candidate, of role \<^verbatim>\<open>model\<close>, whose text is the first choice's (first block's) text, and
  the empty text when the backend returns no content; the second OpenAI-client adapter
  does so for a request whose contents are absent or an array. \<open>generateContent\<close> of the
  Grok adapter fails on every request.
\<close>

theorem generateContent_one_model_candidate:
  "(chat_completions_create sdk oc
      (chatParams request
         (openai_toOpenAIMessages (Some (orEmptyArray (req_contents request)))) False)
      = Inr completion
    \<longrightarrow> (\<exists>r. generateContent (openai_generator sdk oc) request = Inr r
             \<and> length (candidates r) = 1
             \<and> responseRoles r = [Some ''model'']
             \<and> responseTexts r = [completionText completion]
             \<and> (noContent completion \<longrightarrow> responseTexts r = [[]])))
   \<and> (messages_create sdk ac
        \<lparr>mp_model = req_model request,
         mp_messages = toAnthropicMessages (req_contents request),
         mp_max_tokens =
           (case Option.bind (req_config request) cfg_maxOutputTokens of
              None \<Rightarrow> 1024 | Some n \<Rightarrow> n),
         mp_temperature = Option.bind (req_config request) cfg_temperature\<rparr>
        = Inr reply
       \<longrightarrow> (\<exists>r. generateContent (claude_generator sdk ac) request = Inr r
                \<and> length (candidates r) = 1
                \<and> responseRoles r = [Some ''model'']
                \<and> responseTexts r = [messageText reply]
                \<and> (noBlockText reply \<longrightarrow> responseTexts r = [[]])))
   \<and> (part002_toOpenAIMessages (orEmptyArray (req_contents request)) = Inr messages
        \<and> chat_completions_create sdk oc (chatParams request messages False) = Inr completion
       \<longrightarrow> (\<exists>r. generateContent (part002_generator sdk oc) request = Inr r
                \<and> length (candidates r) = 1
                \<and> responseRoles r = [Some ''model'']
                \<and> responseTexts r = [completionText completion]
                \<and> (noContent completion \<longrightarrow> responseTexts r = [[]])))
   \<and> generateContent grok_generator request = Inl (Error ''Provider not implemented'')"
proof (intro conjI impI)
  assume "chat_completions_create sdk oc
      (chatParams request
         (openai_toOpenAIMessages (Some (orEmptyArray (req_contents request)))) False)
      = Inr completion"
  then have "generateContent (openai_generator sdk oc) request
               = Inr (completionResponse completion)"
    by (simp add: openai_generator_def openai_generateContent_returns)
  then show "\<exists>r. generateContent (openai_generator sdk oc) request = Inr r
             \<and> length (candidates r) = 1
             \<and> responseRoles r = [Some ''model'']
             \<and> responseTexts r = [completionText completion]
             \<and> (noContent completion \<longrightarrow> responseTexts r = [[]])"
    by (simp add: completionResponse_shape noContent_text)
next
  assume "messages_create sdk ac
        \<lparr>mp_model = req_model request,
         mp_messages = toAnthropicMessages (req_contents request),
         mp_max_tokens =
           (case Option.bind (req_config request) cfg_maxOutputTokens of
              None \<Rightarrow> 1024 | Some n \<Rightarrow> n),
         mp_temperature = Option.bind (req_config request) cfg_temperature\<rparr>
        = Inr reply"
  then have "generateContent (claude_generator sdk ac) request
               = Inr \<lparr>candidates = [candidateOf (messageText reply)], usageMetadata = None\<rparr>"
    by (simp add: claude_generator_def claude_generateContent_returns)
  then show "\<exists>r. generateContent (claude_generator sdk ac) request = Inr r
                \<and> length (candidates r) = 1
                \<and> responseRoles r = [Some ''model'']
                \<and> responseTexts r = [messageText reply]
                \<and> (noBlockText reply \<longrightarrow> responseTexts r = [[]])"
    by (simp add: responseRoles_def responseTexts_def candidateOf_role candidateOf_text
        noBlockText_text)
next
  assume "part002_toOpenAIMessages (orEmptyArray (req_contents request)) = Inr messages
        \<and> chat_completions_create sdk oc (chatParams request messages False) = Inr completion"
  then have "generateContent (part002_generator sdk oc) request
               = Inr (completionResponse completion)"
    by (simp add: part002_generator_def part002_generateContent_returns)
  then show "\<exists>r. generateContent (part002_generator sdk oc) request = Inr r
                \<and> length (candidates r) = 1
                \<and> responseRoles r = [Some ''model'']
                \<and> responseTexts r = [completionText completion]
                \<and> (noContent completion \<longrightarrow> responseTexts r = [[]])"
    by (simp add: completionResponse_shape noContent_text)
next
  show "generateContent grok_generator request = Inl (Error ''Provider not implemented'')"
    by (simp add: grok_generator_def)
qed

theorem generateContent_one_model_candidate_witness:
  "(\<exists>r. generateContent (openai_generator sampleSDK \<lparr>openai_apiKey = ''sk-1''\<rparr>) helloRequest
           = Inr r
        \<and> length (candidates r) = 1 \<and> responseRoles r = [Some ''model'']
        \<and> responseTexts r = [''hi''])
   \<and> (\<exists>r. generateContent (claude_generator sampleSDK \<lparr>anthropic_apiKey = ''ak-1''\<rparr>)
             helloRequest = Inr r
        \<and> length (candidates r) = 1 \<and> responseRoles r = [Some ''model'']
        \<and> responseTexts r = [''hi''])
   \<and> (\<exists>r. generateContent (part002_generator sampleSDK \<lparr>openai_apiKey = ''sk-1''\<rparr>)
             arrayRequest = Inr r
        \<and> length (candidates r) = 1 \<and> responseRoles r = [Some ''model'']
        \<and> responseTexts r = [''hi''])
   \<and> (\<exists>r. generateContent (openai_generator silentSDK \<lparr>openai_apiKey = ''sk-1''\<rparr>) helloRequest
           = Inr r
        \<and> length (candidates r) = 1 \<and> responseRoles r = [Some ''model'']
        \<and> responseTexts r = [[]])
   \<and> (\<exists>r. generateContent (claude_generator silentSDK \<lparr>anthropic_apiKey = ''ak-1''\<rparr>)
             helloRequest = Inr r
        \<and> length (candidates r) = 1 \<and> responseRoles r = [Some ''model'']
        \<and> responseTexts r = [[]])"
proof -
  let ?full = "\<lparr>choices = [\<lparr>choice_message = Some \<lparr>cm_content = Some ''hi''\<rparr>\<rparr>],
                usage = Some \<lparr>total_tokens = 7\<rparr>\<rparr>"
  let ?reply = "\<lparr>am_content = Some [\<lparr>block_text = Some ''hi''\<rparr>],
                 am_usage = Some \<lparr>input_tokens = 3, output_tokens = 4\<rparr>\<rparr>"
  let ?none = "\<lparr>choices = [], usage = None\<rparr>"
  let ?mute = "\<lparr>am_content = None, am_usage = None\<rparr>"
  have texts: "completionText ?full = ''hi''" "messageText ?reply = ''hi''"
    "noContent ?none" "noBlockText ?mute"
    by (simp_all add: completionText_def messageText_def orEmpty_def noContent_def
        noBlockText_def)
  note t1 = generateContent_one_model_candidate
      [of sampleSDK "\<lparr>openai_apiKey = ''sk-1''\<rparr>" helloRequest ?full
          "\<lparr>anthropic_apiKey = ''ak-1''\<rparr>" ?reply
          "[\<lparr>msg_role = Some ''user'', msg_content = ''hello''\<rparr>]"]
  note t2 = generateContent_one_model_candidate
      [of sampleSDK "\<lparr>openai_apiKey = ''sk-1''\<rparr>" arrayRequest ?full
          "\<lparr>anthropic_apiKey = ''ak-1''\<rparr>" ?reply
          "[\<lparr>msg_role = Some ''user'', msg_content = ''hello''\<rparr>]"]
  note t3 = generateContent_one_model_candidate
      [of silentSDK "\<lparr>openai_apiKey = ''sk-1''\<rparr>" helloRequest ?none
          "\<lparr>anthropic_apiKey = ''ak-1''\<rparr>" ?mute
          "[\<lparr>msg_role = Some ''user'', msg_content = ''hello''\<rparr>]"]
  from t1 [THEN conjunct1] have 1:
    "\<exists>r. generateContent (openai_generator sampleSDK \<lparr>openai_apiKey = ''sk-1''\<rparr>) helloRequest
           = Inr r
        \<and> length (candidates r) = 1 \<and> responseRoles r = [Some ''model'']
        \<and> responseTexts r = [''hi'']"
    by (auto simp add: sample_chat texts)
  from t1 [THEN conjunct2, THEN conjunct1] have 2:
    "\<exists>r. generateContent (claude_generator sampleSDK \<lparr>anthropic_apiKey = ''ak-1''\<rparr>)
             helloRequest = Inr r
        \<and> length (candidates r) = 1 \<and> responseRoles r = [Some ''model'']
        \<and> responseTexts r = [''hi'']"
    by (auto simp add: sample_messages texts)
  from t2 [THEN conjunct2, THEN conjunct2, THEN conjunct1] have 3:
    "\<exists>r. generateContent (part002_generator sampleSDK \<lparr>openai_apiKey = ''sk-1''\<rparr>)
             arrayRequest = Inr r
        \<and> length (candidates r) = 1 \<and> responseRoles r = [Some ''model'']
        \<and> responseTexts r = [''hi'']"
    by (auto simp add: sample_chat arrayRequest_messages texts)
  from t3 [THEN conjunct1] have 4:
    "\<exists>r. generateContent (openai_generator silentSDK \<lparr>openai_apiKey = ''sk-1''\<rparr>) helloRequest
           = Inr r
        \<and> length (candidates r) = 1 \<and> responseRoles r = [Some ''model'']
        \<and> responseTexts r = [[]]"
    by (auto simp add: silent_chat texts)
  from t3 [THEN conjunct2, THEN conjunct1] have 5:
    "\<exists>r. generateContent (claude_generator silentSDK \<lparr>anthropic_apiKey = ''ak-1''\<rparr>)
             helloRequest = Inr r
        \<and> length (candidates r) = 1 \<and> responseRoles r = [Some ''model'']
        \<and> responseTexts r = [[]]"
    by (auto simp add: silent_messages texts)
  from 1 2 3 4 5 show ?thesis by blast
qed

text \<open>
  Claim C4 as stated fails for the Grok adapter: constructed with a key, its
  \<open>generateContent\<close> returns no candidate.
\<close>

theorem grok_generateContent_fails_counterexample:
  "createContentGenerator sampleImports sampleSDK sampleProcess
     (sampleConfig\<lparr>cgc_provider := Some GROK, cgc_apiKey := Some ''x-1''\<rparr>) sampleSession None
     = (Inr grok_generator, [EnvRead ''CLI_VERSION''])
   \<and> generateContent grok_generator helloRequest = Inl (Error ''Provider not implemented'')"
  by (simp add: createContentGenerator_def Let_def provider_tags_distinct prepend_def
      grok_createProvider_def sampleConfig_def grok_generator_def)



subsection \<open>Streaming\<close>

text \<open>
  Claim C5. When the backend's streaming call returns a stream, \<open>generateContentStream\<close>
  of the OpenAI adapter produces one response for each chunk of the stream, in the
  stream's order, each with one candidate of role \<^verbatim>\<open>model\<close> whose text is that chunk's
  delta text alone, and it ends as the backend's stream ends. For the deltas \<open>Hel\<close> and
  \<open>lo\<close> it produces two responses, with the texts \<open>Hel\<close> and \<open>lo\<close>.
\<close>

theorem stream_yields_one_chunk_per_delta:
  assumes "chat_completions_create_stream sdk client
             (chatParams request
                (openai_toOpenAIMessages (Some (orEmptyArray (req_contents request)))) True)
           = Inr (chunks, ending)"
  shows "\<exists>out. generateContentStream (openai_generator sdk client) request = Inr (out, ending)
           \<and> length out = length chunks
           \<and> map responseTexts out = map (\<lambda>c. [chunkText c]) chunks
           \<and> map responseRoles out = map (\<lambda>c. [Some ''model'']) chunks
           \<and> (\<forall>i < length chunks. responseTexts (out ! i) = [chunkText (chunks ! i)])"
proof -
  let ?out = "fst (iterator (chunks, ending))"
  have run: "generateContentStream (openai_generator sdk client) request = Inr (?out, ending)"
    using assms
    by (simp add: openai_generator_def openai_generateContentStream_def Let_def iterator_def)
  have nth: "\<forall>i < length chunks. responseTexts (?out ! i) = [chunkText (chunks ! i)]"
    by (simp add: iterator_def chunkResponse_shape)
  from run nth show ?thesis
    using iterator_shape(2-4) [of chunks ending] by blast
qed

theorem stream_yields_one_chunk_per_delta_witness:
  "\<exists>out. generateContentStream (openai_generator sampleSDK \<lparr>openai_apiKey = ''sk-1''\<rparr>)
            helloRequest = Inr (out, None)
     \<and> length out = 2
     \<and> map responseTexts out = [[''Hel''], [''lo'']]"
proof -
  have h: "chat_completions_create_stream sampleSDK \<lparr>openai_apiKey = ''sk-1''\<rparr>
             (chatParams helloRequest
                (openai_toOpenAIMessages (Some (orEmptyArray (req_contents helloRequest)))) True)
           = Inr ([deltaChunk ''Hel'', deltaChunk ''lo''], None)"
    by (simp add: sampleSDK_def)
  from stream_yields_one_chunk_per_delta [OF h]
  obtain out where
    "generateContentStream (openai_generator sampleSDK \<lparr>openai_apiKey = ''sk-1''\<rparr>)
       helloRequest = Inr (out, None)"
    "length out = length [deltaChunk ''Hel'', deltaChunk ''lo'']"
    "map responseTexts out = map (\<lambda>c. [chunkText c]) [deltaChunk ''Hel'', deltaChunk ''lo'']"
    by blast
  then show ?thesis by (intro exI [of _ out]) (simp add: chunkText_deltaChunk)
qed

subsection \<open>Unsupported operations\<close>

text \<open>
  Claim C7, as the code has it. \<open>countTokens\<close> fails in every adapter. In the OpenAI
  adapters and the Claude adapter each unsupported operation fails, whatever the request
  and the backend, with a message that ends in \<^verbatim>\<open>not implemented for X provider\<close>. The
  four operations of the Grok adapter fail with \<^verbatim>\<open>Provider not implemented\<close>.
\<close>

theorem unsupported_operations_fail:
  "countTokens (openai_generator sdk oc) req =
     Inl (Error ''countTokens is not implemented for OpenAI provider'')
   \<and> countTokens (part002_generator sdk oc) req =
     Inl (Error ''countTokens is not implemented for OpenAI provider'')
   \<and> countTokens (claude_generator sdk ac) req =
     Inl (Error ''countTokens is not implemented for Claude provider'')
   \<and> generateContentStream (claude_generator sdk ac) request =
     Inl (Error ''Streaming not implemented for Claude provider'')
   \<and> embedContent (claude_generator sdk ac) ereq =
     Inl (Error ''embedContent is not implemented for Claude provider'')
   \<and> sublist ''not implemented for OpenAI provider''
       ''countTokens is not implemented for OpenAI provider''
   \<and> sublist ''not implemented for Claude provider''
       ''countTokens is not implemented for Claude provider''
   \<and> sublist ''not implemented for Claude provider''
       ''Streaming not implemented for Claude provider''
   \<and> sublist ''not implemented for Claude provider''
       ''embedContent is not implemented for Claude provider''
   \<and> countTokens grok_generator req = Inl (Error ''Provider not implemented'')
   \<and> generateContent grok_generator request = Inl (Error ''Provider not implemented'')
   \<and> generateContentStream grok_generator request = Inl (Error ''Provider not implemented'')
   \<and> embedContent grok_generator ereq = Inl (Error ''Provider not implemented'')
   \<and> sublist ''not implemented'' ''Provider not implemented''"
  by (simp add: openai_generator_def part002_generator_def claude_generator_def
      grok_generator_def openai_countTokens_def claude_countTokens_def
      claude_generateContentStream_def claude_embedContent_def sublist_code)

text \<open>
  Claim C7 as stated fails for the Grok adapter: the message of its \<open>countTokens\<close> does
  not name the provider.
\<close>

theorem grok_message_names_no_provider_counterexample:
  "countTokens grok_generator \<lparr>ct_model = ''m'', ct_contents = None\<rparr>
     = Inl (Error ''Provider not implemented'')
   \<and> \<not> sublist ''Grok'' ''Provider not implemented''
   \<and> \<not> sublist ''grok'' ''Provider not implemented''
   \<and> \<not> sublist ''GROK'' ''Provider not implemented''"
  by (simp add: grok_generator_def sublist_code)

subsection \<open>Translation of a turn without a role\<close>

text \<open>
  Claim C6 at a turn that has two text parts and no role: the Claude adapter and the
  second OpenAI-client adapter concatenate the texts and pass the absent role on; the
  OpenAI adapter sets the role \<^verbatim>\<open>user\<close> and sends the object's string form instead of
  the texts. The second OpenAI-client adapter maps a string item to a message without
  role and without text.
\<close>

theorem roleless_turn_translation:
  "toAnthropicMessages (Some (ListArray [ItemObject rolelessTurn])) =
     [\<lparr>msg_role = None, msg_content = ''ab''\<rparr>]
   \<and> openai_toOpenAIMessages (Some (ListArray [ItemObject rolelessTurn])) =
     [\<lparr>msg_role = Some ''user'', msg_content = ''[object Object]''\<rparr>]
   \<and> part002_toOpenAIMessages (ListArray [ItemObject rolelessTurn]) =
     Inr [\<lparr>msg_role = None, msg_content = ''ab''\<rparr>]
   \<and> part002_toOpenAIMessages (ListArray [ItemString ''hi'']) =
     Inr [\<lparr>msg_role = None, msg_content = []\<rparr>]"
  by (simp add: toAnthropicMessages_def openai_toOpenAIMessages_def part002_toOpenAIMessages_def
      rolelessTurn_def partsOrEmpty_def partText_def part002_partText_def orEmpty_def
      objectToString_def)

end
